theory Spec2Isabelle
  imports Complex_Main "HOL-Library.Char_ord" "HOL-Library.List_Lexorder"
begin

section \<open>Data model\<close>

text \<open>
  The dashboard script \<^verbatim>\<open>app.py\<close> works on one table, read from
  \<^verbatim>\<open>cleaned_vaccinations.parquet\<close>. A table is the list of its rows, in row order.
  The \<^verbatim>\<open>date\<close> column is a pandas timestamp, kept here as the number of
  nanoseconds since the epoch; \<^verbatim>\<open>.dt.date\<close> reads the calendar day off it, kept as
  the number of days since the epoch. The count columns hold whole numbers (the script
  converts them with \<^verbatim>\<open>int(...)\<close>), the percentage column a finite number.
\<close>

type_synonym day = int
type_synonym timestamp = int

record row =
  location :: string
  iso_code :: string
  date :: timestamp
  total_vaccinations :: int
  people_vaccinated :: int
  people_fully_vaccinated :: int
  total_boosters :: int
  people_fully_vaccinated_per_hundred :: real
  daily_vaccinations :: int

type_synonym frame = "row list"

definition ns_per_day :: int where
  "ns_per_day = 86400000000000"

definition dt_date :: "timestamp \<Rightarrow> day" where
  "dt_date t = t div ns_per_day"

section \<open>Sidebar: location list and filters\<close>

definition non_country_aggregates :: "string list" where
  "non_country_aggregates =
     [''World'', ''Europe'', ''Asia'', ''Africa'', ''North America'',
      ''South America'', ''European Union'', ''High income'',
      ''Low income'', ''Lower middle income'', ''Upper middle income'']"

text \<open>\<^verbatim>\<open>Series.unique()\<close>: the distinct values, in order of first appearance.\<close>

fun unique_from :: "'a list \<Rightarrow> 'a list \<Rightarrow> 'a list" where
  "unique_from seen [] = []"
| "unique_from seen (x # xs) =
     (if x \<in> set seen then unique_from seen xs else x # unique_from (x # seen) xs)"

definition unique :: "'a list \<Rightarrow> 'a list" where
  "unique xs = unique_from [] xs"

definition country_list :: "frame \<Rightarrow> string list" where
  "country_list df =
     sort (filter (\<lambda>loc. loc \<notin> set non_country_aggregates) (unique (map location df)))"

definition location_options :: "frame \<Rightarrow> string list" where
  "location_options df = ''Worldwide'' # country_list df"

definition location_to_filter :: "string \<Rightarrow> string" where
  "location_to_filter selected_option =
     (if selected_option = ''Worldwide'' then ''World'' else selected_option)"

text \<open>
  Line 62, \<^verbatim>\<open>df[df['location'] == location_to_filter].copy()\<close>, and lines 65 to 68,
  the mask on \<^verbatim>\<open>.dt.date\<close>. Boolean indexing keeps the rows whose mask entry is
  true, in their order.
\<close>

definition filter_location :: "frame \<Rightarrow> string \<Rightarrow> frame" where
  "filter_location df loc = filter (\<lambda>r. location r = loc) df"

definition filter_date :: "frame \<Rightarrow> day \<Rightarrow> day \<Rightarrow> frame" where
  "filter_date fdf start_date end_date =
     filter (\<lambda>r. dt_date (date r) \<ge> start_date \<and> dt_date (date r) \<le> end_date) fdf"

definition filtered_df :: "frame \<Rightarrow> string \<Rightarrow> day \<Rightarrow> day \<Rightarrow> frame" where
  "filtered_df df selected_option start_date end_date =
     filter_date (filter_location df (location_to_filter selected_option)) start_date end_date"

section \<open>Key metrics\<close>

text \<open>
  The exceptions a run can end with. \<^verbatim>\<open>NaTDateInput\<close> stands for the exception
  that leaves \<^verbatim>\<open>st.sidebar.date_input\<close> when the bounds handed to it are not dates
  (the table has no rows); \<^verbatim>\<open>ValueError\<close> is the failed unpacking of line 48.
\<close>

datatype exn = IndexError | StreamlitAPIException | ReadFailure string | NaTDateInput | ValueError

text \<open>
  \<^verbatim>\<open>filtered_df.iloc[-1]\<close>: the last row; an empty table raises IndexError.
\<close>

definition iloc_last :: "frame \<Rightarrow> exn + row" where
  "iloc_last xs = (if xs = [] then Inl IndexError else Inr (last xs))"

text \<open>
  Python's \<^verbatim>\<open>min(a, b)\<close> returns \<^verbatim>\<open>a\<close> unless \<^verbatim>\<open>b < a\<close>.
  Line 96 passes \<^verbatim>\<open>min(coverage / 100, 1.0)\<close> to the progress bar. The percentage
  is read as a real number: rounding of the division is left out.
\<close>

definition py_min :: "real \<Rightarrow> real \<Rightarrow> real" where
  "py_min a b = (if b < a then b else a)"

definition progress_arg :: "real \<Rightarrow> real" where
  "progress_arg coverage = py_min (coverage / 100) 1.0"

section \<open>Comparison tab: reshaping to long form\<close>

record long_row =
  id_location :: string
  Metric :: string
  Count :: int

type_synonym column = "string \<times> (row \<Rightarrow> int)"

definition comparison_cols :: "column list" where
  "comparison_cols =
     [(''people_vaccinated'', people_vaccinated),
      (''people_fully_vaccinated'', people_fully_vaccinated)]"

text \<open>
  \<^verbatim>\<open>DataFrame.melt(id_vars='location', var_name='Metric', value_name='Count')\<close> over
  the selected value columns: one block of records per value column, each block holding
  one record per input row, in row order.
\<close>

definition melt :: "column list \<Rightarrow> frame \<Rightarrow> long_row list" where
  "melt cols xs =
     concat (map (\<lambda>(name, col).
       map (\<lambda>r. \<lparr>id_location = location r, Metric = name, Count = col r\<rparr>) xs) cols)"

text \<open>\<^verbatim>\<open>filtered_df.iloc[[-1]]\<close>: the table of the last row alone.\<close>

definition iloc_last_frame :: "frame \<Rightarrow> exn + frame" where
  "iloc_last_frame xs = (if xs = [] then Inl IndexError else Inr [last xs])"

definition latest_comparison :: "frame \<Rightarrow> exn + long_row list" where
  "latest_comparison fdf =
     (case iloc_last_frame fdf of
        Inl e \<Rightarrow> Inl e
      | Inr one \<Rightarrow> Inr (melt comparison_cols one))"

section \<open>Global view\<close>

text \<open>Lines 154 to 157: rows up to the end day whose location is not an aggregate.\<close>

definition subset_df :: "frame \<Rightarrow> day \<Rightarrow> frame" where
  "subset_df df end_date =
     filter (\<lambda>r. dt_date (date r) \<le> end_date \<and> location r \<notin> set non_country_aggregates) df"

text \<open>
  \<^verbatim>\<open>sort_values('date')\<close> orders the rows by timestamp, ascending. The model is
  a stable sort. The default sort of pandas need not be stable, so rows of equal timestamp
  can come out in another order; the statements below speak of dates only and are proved
  from the order by date alone, so they do not depend on how such rows are ordered.
\<close>

definition sort_values_date :: "frame \<Rightarrow> frame" where
  "sort_values_date xs = sort_key date xs"

text \<open>
  \<^verbatim>\<open>groupby('location').tail(1)\<close>: of each location the last row, the result in the
  row order of the table it is taken from.
\<close>

fun groupby_location_tail1 :: "frame \<Rightarrow> frame" where
  "groupby_location_tail1 [] = []"
| "groupby_location_tail1 (r # rs) =
     (if location r \<in> set (map location rs) then groupby_location_tail1 rs
      else r # groupby_location_tail1 rs)"

definition latest_country_data :: "frame \<Rightarrow> day \<Rightarrow> frame" where
  "latest_country_data df end_date =
     groupby_location_tail1 (sort_values_date (subset_df df end_date))"

text \<open>
  \<^verbatim>\<open>nlargest(n, 'total_vaccinations')\<close>: the first \<^verbatim>\<open>n\<close> rows in descending
  order of the column; among equal values the earlier row comes first
  (\<^verbatim>\<open>keep='first'\<close>).
\<close>

definition nlargest :: "nat \<Rightarrow> frame \<Rightarrow> frame" where
  "nlargest n xs = take n (sort_key (\<lambda>r. - total_vaccinations r) xs)"

definition top_10 :: "frame \<Rightarrow> frame" where
  "top_10 lcd = nlargest 10 lcd"

section \<open>The script, top to bottom\<close>

text \<open>
  One run of the script is a function from what the run reads (the outcome of reading the
  data file, and the values the two sidebar widgets return) to what it shows, in order,
  and how it ends. \<^verbatim>\<open>st.stop()\<close> ends the run at once; an exception nobody
  catches ends it as well. The date widget returns a tuple of days: both ends of the
  range, or one day only while the user is still choosing.
\<close>

datatype read_error = FileNotFoundError | OtherReadError string

datatype event =
    SetPageConfig
  | StError string
  | SidebarHeader string
  | SidebarSelectbox string "string list"
  | SidebarDateInput string day day
  | StTitle
  | StMarkdownFilters string day day
  | StWarning string
  | StMetric string int
  | StMetricPercent string real
  | StProgress real
  | StMarkdownRule
  | StTabs "string list"
  | StSubheader string
  | PlotArea frame
  | PlotLine frame
  | PlotCompare "long_row list"
  | PlotTop10 frame
  | PlotMap frame
  | StInfo string

datatype status = Completed | Stopped | Raised exn

text \<open>
  Lines 16 to 24. Only \<^verbatim>\<open>FileNotFoundError\<close> is caught; any other failure of
  \<^verbatim>\<open>read_parquet\<close> leaves \<^verbatim>\<open>load_data\<close> as an exception.
\<close>

definition load_data :: "read_error + frame \<Rightarrow> event list \<times> (status + frame)" where
  "load_data file =
     (case file of
        Inr df \<Rightarrow> ([], Inr df)
      | Inl FileNotFoundError \<Rightarrow>
          ([StError ''Data file not found. Please run the data preparation notebook first.''],
           Inl Stopped)
      | Inl (OtherReadError msg) \<Rightarrow> ([], Inl (Raised (ReadFailure msg))))"

text \<open>
  Lines 45 and 46: the earliest and the latest day of the whole table. A table with no
  rows has neither (pandas gives \<^verbatim>\<open>NaT\<close>), which is \<open>None\<close> here.
\<close>

fun min_date :: "frame \<Rightarrow> day option" where
  "min_date [] = None"
| "min_date (r # rs) = Some (dt_date (fold min (map date rs) (date r)))"

fun max_date :: "frame \<Rightarrow> day option" where
  "max_date [] = None"
| "max_date (r # rs) = Some (dt_date (fold max (map date rs) (date r)))"

text \<open>
  Lines 29 to 53, up to the call of the date widget: the header, the select box, and the
  date widget with its bounds. Without bounds the date widget raises.
\<close>

definition sidebar :: "frame \<Rightarrow> event list \<times> exn option" where
  "sidebar df =
     (case (min_date df, max_date df) of
        (Some lo, Some hi) \<Rightarrow>
          ([SidebarHeader ''Filter Options'',
            SidebarSelectbox ''Select a Location'' (location_options df),
            SidebarDateInput ''Select Date Range'' lo hi], None)
      | _ \<Rightarrow>
          ([SidebarHeader ''Filter Options'',
            SidebarSelectbox ''Select a Location'' (location_options df)],
           Some NaTDateInput))"

text \<open>
  Line 48, \<^verbatim>\<open>start_date, end_date = ...\<close>: unpacking needs exactly two days.
\<close>

definition unpack_range :: "day list \<Rightarrow> exn + day \<times> day" where
  "unpack_range picked =
     (case picked of [start_date, end_date] \<Rightarrow> Inr (start_date, end_date) | _ \<Rightarrow> Inl ValueError)"

text \<open>
  A complete selection the two widgets can return for a table: one of the select box's
  options, and a range of days inside the date widget's bounds.
\<close>

definition in_widget_range :: "frame \<Rightarrow> string \<Rightarrow> day \<Rightarrow> day \<Rightarrow> bool" where
  "in_widget_range df selected_option start_date end_date =
     (selected_option \<in> set (location_options df)
      \<and> (case (min_date df, max_date df) of
            (Some lo, Some hi) \<Rightarrow> lo \<le> start_date \<and> start_date \<le> end_date \<and> end_date \<le> hi
          | _ \<Rightarrow> False))"

definition metrics :: "row \<Rightarrow> event list" where
  "metrics latest_data =
     [StMetric ''Total Vaccinations'' (total_vaccinations latest_data),
      StMetric ''People Fully Vaccinated'' (people_fully_vaccinated latest_data),
      StMetric ''Total Boosters'' (total_boosters latest_data),
      StMetricPercent ''Fully Vaccinated %'' (people_fully_vaccinated_per_hundred latest_data)]"

text \<open>
  \<^verbatim>\<open>math.isclose(a, b, rel_tol=1e-9, abs_tol=1e-9)\<close>, and \<^verbatim>\<open>st.progress\<close> on
  a float: it takes a value between 0.0 and 1.0, or one that is close to either bound,
  and raises on any other.
\<close>

definition isclose :: "real \<Rightarrow> real \<Rightarrow> bool" where
  "isclose a b = (\<bar>a - b\<bar> \<le> max (max \<bar>a\<bar> \<bar>b\<bar> / 1000000000) (1 / 1000000000))"

definition st_progress :: "real \<Rightarrow> exn + event" where
  "st_progress v =
     (if (0 \<le> v \<and> v \<le> 1) \<or> isclose v 0 \<or> isclose v 1
      then Inr (StProgress v) else Inl StreamlitAPIException)"

definition tab1 :: "frame \<Rightarrow> event list" where
  "tab1 fdf = [StSubheader ''Vaccination Trends Over Time'', PlotArea fdf, PlotLine fdf]"

definition tab2 :: "long_row list \<Rightarrow> event list" where
  "tab2 lc = [StSubheader ''Vaccination Breakdown'', PlotCompare lc]"

definition tab3 :: "string \<Rightarrow> frame \<Rightarrow> day \<Rightarrow> event list" where
  "tab3 selected_option df end_date =
     (if selected_option = ''Worldwide''
      then [StSubheader ''Global Comparisons'',
            PlotTop10 (top_10 (latest_country_data df end_date)),
            StSubheader ''Global Vaccination Coverage Map'',
            PlotMap (latest_country_data df end_date)]
      else [StInfo ''Select 'Worldwide' in the sidebar to view global comparisons and rankings.''])"

text \<open>Lines 78 to 190: what follows the emptiness check.\<close>

definition main_page :: "frame \<Rightarrow> frame \<Rightarrow> string \<Rightarrow> day \<Rightarrow> event list \<times> status" where
  "main_page df fdf selected_option end_date =
     (case iloc_last fdf of
        Inl x \<Rightarrow> ([], Raised x)
      | Inr latest_data \<Rightarrow>
          (case st_progress (progress_arg (people_fully_vaccinated_per_hundred latest_data)) of
             Inl x \<Rightarrow> (metrics latest_data, Raised x)
           | Inr bar \<Rightarrow>
               (case latest_comparison fdf of
                  Inl x \<Rightarrow>
                    (metrics latest_data
                       @ [bar, StMarkdownRule, StTabs [''Trends'', ''Comparisons'', ''Global View'']]
                       @ tab1 fdf, Raised x)
                | Inr lc \<Rightarrow>
                    (metrics latest_data
                       @ [bar, StMarkdownRule, StTabs [''Trends'', ''Comparisons'', ''Global View'']]
                       @ tab1 fdf @ tab2 lc @ tab3 selected_option df end_date, Completed))))"

text \<open>Lines 55 to 190, once both widgets have returned.\<close>

definition page :: "frame \<Rightarrow> string \<Rightarrow> day \<Rightarrow> day \<Rightarrow> event list \<times> status" where
  "page df selected_option start_date end_date =
     (let fdf = filtered_df df selected_option start_date end_date;
          head = [StTitle, StMarkdownFilters selected_option start_date end_date]
      in if fdf = []
         then (head @ [StWarning ''No data available for the selected filters.''], Stopped)
         else (case main_page df fdf selected_option end_date of
                 (shown, st) \<Rightarrow> (head @ shown, st)))"

text \<open>
  The whole script. Its inputs are the outcome of reading the file, the option the select
  box returns and the tuple of days the date widget returns.
\<close>

definition run :: "read_error + frame \<Rightarrow> string \<Rightarrow> day list \<Rightarrow> event list \<times> status" where
  "run file selected_option picked =
     (case load_data file of
        (shown, Inl st) \<Rightarrow> (SetPageConfig # shown, st)
      | (shown, Inr df) \<Rightarrow>
          (case sidebar df of
             (side, Some x) \<Rightarrow> (SetPageConfig # shown @ side, Raised x)
           | (side, None) \<Rightarrow>
               (case unpack_range picked of
                  Inl x \<Rightarrow> (SetPageConfig # shown @ side, Raised x)
                | Inr (start_date, end_date) \<Rightarrow>
                    (case page df selected_option start_date end_date of
                       (shown', st) \<Rightarrow> (SetPageConfig # shown @ side @ shown', st)))))"

text \<open>
  The events that only the part of the script after the emptiness check (line 78 onwards)
  produces: the key metrics, the progress bar, the tabs and everything shown in them.
\<close>

fun from_after_check :: "event \<Rightarrow> bool" where
  "from_after_check SetPageConfig = False"
| "from_after_check (StError m) = False"
| "from_after_check (SidebarHeader t) = False"
| "from_after_check (SidebarSelectbox t opts) = False"
| "from_after_check (SidebarDateInput t lo hi) = False"
| "from_after_check StTitle = False"
| "from_after_check (StMarkdownFilters sel s e) = False"
| "from_after_check (StWarning m) = False"
| "from_after_check ev = True"

section \<open>Filtering on a store of tables\<close>

text \<open>
  To speak of which table objects the filtering of lines 62 to 68 touches, tables live in
  a store and are named by their address. Boolean indexing and \<^verbatim>\<open>.copy()\<close> each build
  a new table object; neither writes to the table it reads.
\<close>

type_synonym addr = nat
type_synonym store = "frame list"

definition frame_at :: "store \<Rightarrow> addr \<Rightarrow> frame option" where
  "frame_at h a = (if a < length h then Some (h ! a) else None)"

definition alloc :: "frame \<Rightarrow> store \<Rightarrow> addr \<times> store" where
  "alloc f h = (length h, h @ [f])"

definition getitem_mask :: "(row \<Rightarrow> bool) \<Rightarrow> addr \<Rightarrow> store \<Rightarrow> (addr \<times> store) option" where
  "getitem_mask p a h =
     (case frame_at h a of None \<Rightarrow> None | Some f \<Rightarrow> Some (alloc (filter p f) h))"

definition frame_copy :: "addr \<Rightarrow> store \<Rightarrow> (addr \<times> store) option" where
  "frame_copy a h = (case frame_at h a of None \<Rightarrow> None | Some f \<Rightarrow> Some (alloc f h))"

definition filter_steps :: "addr \<Rightarrow> string \<Rightarrow> day \<Rightarrow> day \<Rightarrow> store \<Rightarrow> (addr \<times> store) option" where
  "filter_steps df selected_option start_date end_date h =
     (case getitem_mask (\<lambda>r. location r = location_to_filter selected_option) df h of
        None \<Rightarrow> None
      | Some (a1, h1) \<Rightarrow>
          (case frame_copy a1 h1 of
             None \<Rightarrow> None
           | Some (a2, h2) \<Rightarrow>
               getitem_mask
                 (\<lambda>r. dt_date (date r) \<ge> start_date \<and> dt_date (date r) \<le> end_date) a2 h2))"

section \<open>The dataset's ordering invariant\<close>

text \<open>
  The source file lists each location's rows with dates that never decrease. The script
  does not check this; it is a property of the data, stated here as a predicate.
\<close>

definition dates_nondecreasing_per_location :: "frame \<Rightarrow> bool" where
  "dates_nondecreasing_per_location df =
     (\<forall>loc \<in> set (map location df). sorted (map date (filter_location df loc)))"

section \<open>A small dataset for evaluation\<close>

text \<open>
  Two rows of one country, on day 1 and day 2 after the epoch, and one row of the
  ``World'' aggregate on day 2.
\<close>

definition ex_india_1 :: row where
  "ex_india_1 = \<lparr>location = ''India'', iso_code = ''IND'', date = 86400000000000,
     total_vaccinations = 100, people_vaccinated = 80, people_fully_vaccinated = 20,
     total_boosters = 0, people_fully_vaccinated_per_hundred = 2, daily_vaccinations = 100\<rparr>"

definition ex_india_2 :: row where
  "ex_india_2 = \<lparr>location = ''India'', iso_code = ''IND'', date = 172800000000000,
     total_vaccinations = 250, people_vaccinated = 200, people_fully_vaccinated = 50,
     total_boosters = 0, people_fully_vaccinated_per_hundred = 5, daily_vaccinations = 150\<rparr>"

definition ex_world_2 :: row where
  "ex_world_2 = \<lparr>location = ''World'', iso_code = ''OWID_WRL'', date = 172800000000000,
     total_vaccinations = 1000, people_vaccinated = 700, people_fully_vaccinated = 300,
     total_boosters = 0, people_fully_vaccinated_per_hundred = 3, daily_vaccinations = 400\<rparr>"

definition ex_df :: frame where
  "ex_df = [ex_india_1, ex_india_2, ex_world_2]"

definition ex_df_early :: frame where
  "ex_df_early = [ex_india_1, ex_world_2]"

section \<open>Filtering\<close>

lemma filtered_df_filter:
  "filtered_df df sel s e =
     filter (\<lambda>r. location r = location_to_filter sel \<and> s \<le> dt_date (date r) \<and> dt_date (date r) \<le> e) df"
  by (simp add: filtered_df_def filter_date_def filter_location_def conj_commute)

text \<open>
  Claim C1. The filtered table holds exactly the rows of the dataset whose location is the
  one filtered for (the selected option, with the option ``Worldwide'' standing for the
  location ``World'') and whose day lies between the start and the end day, both included.
  Each such row is kept as often as the dataset has it, and in the dataset's order.
\<close>

theorem filtered_df_exact:
  "set (filtered_df df sel s e) =
     {r \<in> set df. location r = location_to_filter sel \<and> s \<le> dt_date (date r) \<and> dt_date (date r) \<le> e}
   \<and> (\<forall>r. count_list (filtered_df df sel s e) r =
        (if location r = location_to_filter sel \<and> s \<le> dt_date (date r) \<and> dt_date (date r) \<le> e
         then count_list df r else 0))
   \<and> filtered_df df sel s e =
        filter (\<lambda>r. location r = location_to_filter sel
                    \<and> s \<le> dt_date (date r) \<and> dt_date (date r) \<le> e) df"
proof (intro conjI)
  show "set (filtered_df df sel s e) =
     {r \<in> set df. location r = location_to_filter sel \<and> s \<le> dt_date (date r) \<and> dt_date (date r) \<le> e}"
    by (simp add: filtered_df_filter)
next
  have cnt: "count_list (filter P xs) r = (if P r then count_list xs r else 0)"
    for P and xs :: frame and r
    by (induction xs) auto
  show "\<forall>r. count_list (filtered_df df sel s e) r =
        (if location r = location_to_filter sel \<and> s \<le> dt_date (date r) \<and> dt_date (date r) \<le> e
         then count_list df r else 0)"
    unfolding filtered_df_filter by (simp add: cnt)
next
  show "filtered_df df sel s e =
        filter (\<lambda>r. location r = location_to_filter sel
                    \<and> s \<le> dt_date (date r) \<and> dt_date (date r) \<le> e) df"
    by (rule filtered_df_filter)
qed

lemmas ex_defs = ex_india_1_def ex_india_2_def ex_world_2_def ex_df_def ex_df_early_def

lemmas ex_eval = ex_defs dt_date_def ns_per_day_def non_country_aggregates_def location_to_filter_def

theorem filtered_df_exact_witness:
  "set (filtered_df ex_df ''India'' 2 2) = {ex_india_2}
   \<and> count_list (filtered_df ex_df ''India'' 2 2) ex_india_2 = 1
   \<and> count_list (filtered_df ex_df ''India'' 2 2) ex_india_1 = 0"
  using filtered_df_exact [of ex_df "''India''" 2 2]
  by (simp add: filtered_df_def filter_date_def filter_location_def ex_eval)

section \<open>Latest row of the filtered table\<close>

lemma sorted_key_last_max:
  "sorted (map f xs) \<Longrightarrow> x \<in> set xs \<Longrightarrow> f x \<le> f (last xs)"
  by (induction xs) (auto split: if_splits)

lemma sorted_key_filter:
  "sorted (map f xs) \<Longrightarrow> sorted (map f (filter P xs))"
  by (induction xs) auto

text \<open>
  Claim C2. When each location's dates never decrease in the dataset and the filtered
  table is not empty, \<^verbatim>\<open>filtered_df.iloc[-1]\<close> returns a row (it does not raise),
  that row is a row of the filtered table, and no row of the filtered table has a later
  date.
\<close>

theorem latest_data_max_date:
  assumes mono: "dates_nondecreasing_per_location df"
      and ne: "filtered_df df sel s e \<noteq> []"
  shows "\<exists>r. iloc_last (filtered_df df sel s e) = Inr r
           \<and> r \<in> set (filtered_df df sel s e)
           \<and> (\<forall>r' \<in> set (filtered_df df sel s e). date r' \<le> date r)"
proof -
  let ?loc = "location_to_filter sel"
  let ?f = "filtered_df df sel s e"
  from ne obtain r0 where r0: "r0 \<in> set ?f" by (cases ?f) auto
  then have "r0 \<in> set df" "location r0 = ?loc"
    by (auto simp: filtered_df_def filter_date_def filter_location_def)
  then have "?loc \<in> set (map location df)" by (metis image_eqI set_map)
  with mono have "sorted (map date (filter_location df ?loc))"
    by (auto simp: dates_nondecreasing_per_location_def)
  then have srt: "sorted (map date ?f)"
    unfolding filtered_df_def filter_date_def by (rule sorted_key_filter)
  have "iloc_last ?f = Inr (last ?f)" using ne by (simp add: iloc_last_def)
  moreover have "last ?f \<in> set ?f" using ne by simp
  moreover have "\<forall>r' \<in> set ?f. date r' \<le> date (last ?f)"
    using srt by (blast intro: sorted_key_last_max)
  ultimately show ?thesis by blast
qed

theorem latest_data_max_date_witness:
  "dates_nondecreasing_per_location ex_df
   \<and> filtered_df ex_df ''India'' 1 2 = [ex_india_1, ex_india_2]
   \<and> iloc_last (filtered_df ex_df ''India'' 1 2) = Inr ex_india_2
   \<and> date ex_india_1 \<le> date ex_india_2"
proof -
  have mono: "dates_nondecreasing_per_location ex_df"
    by (simp add: dates_nondecreasing_per_location_def filter_location_def ex_eval)
  have f: "filtered_df ex_df ''India'' 1 2 = [ex_india_1, ex_india_2]"
    by (simp add: filtered_df_def filter_date_def filter_location_def ex_eval)
  then have ne: "filtered_df ex_df ''India'' 1 2 \<noteq> []" by simp
  show ?thesis
    using latest_data_max_date [OF mono ne] mono f by (simp add: iloc_last_def ex_eval)
qed

section \<open>Top-10 ranking\<close>

lemma sorted_desc_sort_key:
  "sorted_wrt (\<lambda>a b. total_vaccinations b \<le> total_vaccinations a)
     (sort_key (\<lambda>r. - total_vaccinations r) xs)"
proof -
  have "sorted (map (\<lambda>r. - total_vaccinations r) (sort_key (\<lambda>r. - total_vaccinations r) xs))"
    by (rule sorted_sort_key)
  then show ?thesis by (simp add: sorted_map)
qed

text \<open>
  Claim C3. For every table handed to it, the top-10 ranking lists its rows in descending
  order of total vaccinations and has at most ten of them.
\<close>

theorem top_10_sorted_desc_at_most_10:
  "sorted_wrt (\<lambda>a b. total_vaccinations a \<ge> total_vaccinations b) (top_10 lcd)
   \<and> length (top_10 lcd) \<le> 10"
proof
  show "sorted_wrt (\<lambda>a b. total_vaccinations a \<ge> total_vaccinations b) (top_10 lcd)"
    unfolding top_10_def nlargest_def
    by (rule sorted_wrt_take) (rule sorted_desc_sort_key)
  show "length (top_10 lcd) \<le> 10"
    by (simp add: top_10_def nlargest_def)
qed

theorem top_10_sorted_desc_at_most_10_witness:
  "top_10 ex_df = [ex_world_2, ex_india_2, ex_india_1]
   \<and> length (top_10 (replicate 12 ex_india_1)) = 10"
  using top_10_sorted_desc_at_most_10 [of ex_df]
  by (simp add: top_10_def nlargest_def ex_eval numeral_eq_Suc)

section \<open>Latest record per country in the global view\<close>

lemma set_groupby_subset: "set (groupby_location_tail1 xs) \<subseteq> set xs"
  by (induction xs) auto

lemma locations_groupby:
  "location ` set (groupby_location_tail1 xs) = location ` set xs"
  by (induction xs) auto

lemma distinct_locations_groupby:
  "distinct (map location (groupby_location_tail1 xs))"
proof (induction xs)
  case Nil
  show ?case by simp
next
  case (Cons r rs)
  have "location r \<notin> location ` set rs \<Longrightarrow> location r \<notin> location ` set (groupby_location_tail1 rs)"
    by (simp add: locations_groupby)
  with Cons show ?case by auto
qed

lemma groupby_latest:
  "sorted (map date xs) \<Longrightarrow> r \<in> set (groupby_location_tail1 xs) \<Longrightarrow>
     r' \<in> set xs \<Longrightarrow> location r' = location r \<Longrightarrow> date r' \<le> date r"
proof (induction xs)
  case Nil
  then show ?case by simp
next
  case (Cons x xs)
  have srt: "sorted (map date xs)" and low: "\<forall>y \<in> set xs. date x \<le> date y"
    using Cons.prems(1) by auto
  show ?case
  proof (cases "location x \<in> set (map location xs)")
    case True
    then have r: "r \<in> set (groupby_location_tail1 xs)" using Cons.prems(2) by simp
    then have rin: "r \<in> set xs" using set_groupby_subset by blast
    show ?thesis
    proof (cases "r' = x")
      case True
      then show ?thesis using low rin by simp
    next
      case False
      then have "r' \<in> set xs" using Cons.prems(3) by simp
      then show ?thesis using Cons.IH [OF srt r _ Cons.prems(4)] by simp
    qed
  next
    case False
    show ?thesis
    proof (cases "r = x")
      case True
      have "r' \<notin> set xs"
      proof
        assume "r' \<in> set xs"
        then have "location r' \<in> set (map location xs)" by simp
        then show False using False True Cons.prems(4) by simp
      qed
      then have "r' = x" using Cons.prems(3) by simp
      then show ?thesis using True by simp
    next
      case neq: False
      then have r: "r \<in> set (groupby_location_tail1 xs)" using False Cons.prems(2) by simp
      then have "location r \<in> set (map location xs)" using set_groupby_subset by fastforce
      then have "r' \<noteq> x" using False Cons.prems(4) by metis
      then have "r' \<in> set xs" using Cons.prems(3) by simp
      then show ?thesis using Cons.IH [OF srt r _ Cons.prems(4)] by simp
    qed
  qed
qed

lemma distinct_key_filter_single:
  "distinct (map f xs) \<Longrightarrow> x \<in> set xs \<Longrightarrow> filter (\<lambda>y. f y = f x) xs = [x]"
proof (induction xs)
  case Nil
  then show ?case by simp
next
  case (Cons a xs)
  show ?case
  proof (cases "a = x")
    case True
    then have "f x \<notin> f ` set xs" using Cons.prems(1) by simp
    then have "\<forall>y \<in> set xs. f y \<noteq> f x" by (metis imageI)
    then have "filter (\<lambda>y. f y = f x) xs = []" by (simp add: filter_empty_conv)
    then show ?thesis using True by simp
  next
    case False
    then have xin: "x \<in> set xs" using Cons.prems(2) by simp
    then have "f a \<noteq> f x" using Cons.prems(1) by (metis distinct.simps(2) imageI list.simps(9) set_map)
    then show ?thesis using Cons.IH xin Cons.prems(1) by simp
  qed
qed

lemma set_latest_country_data:
  "set (latest_country_data df e) \<subseteq> set (subset_df df e)"
  unfolding latest_country_data_def sort_values_date_def
  using set_groupby_subset [of "sort_key date (subset_df df e)"] by simp

text \<open>
  Claim C4, as stated, asks that the record selected for a location lies inside the
  selected window. The global view filters on the end day only (line 155) and titles its
  chart ``as of'' the end day: a country whose rows are all earlier than the start day is
  still shown, with its latest such row. In the dataset below, with the window set to
  day 2 alone (a selection the widgets can return), the location and date filter finds no
  row of India in the window, while the global view of the run shows India's row of
  day 1.
\<close>

theorem latest_country_data_window_counterexample:
  "in_widget_range ex_df_early ''Worldwide'' 2 2
   \<and> filtered_df ex_df_early ''India'' 2 2 = []
   \<and> latest_country_data ex_df_early 2 = [ex_india_1]
   \<and> dt_date (date ex_india_1) < 2
   \<and> PlotMap [ex_india_1] \<in> set (fst (run (Inr ex_df_early) ''Worldwide'' [2, 2]))"
proof (intro conjI)
  show "in_widget_range ex_df_early ''Worldwide'' 2 2"
    by (simp add: in_widget_range_def location_options_def ex_eval)
  show "filtered_df ex_df_early ''India'' 2 2 = []"
    by (simp add: filtered_df_def filter_date_def filter_location_def ex_eval)
  show "latest_country_data ex_df_early 2 = [ex_india_1]"
    by (simp add: latest_country_data_def sort_values_date_def subset_df_def ex_eval)
  show "dt_date (date ex_india_1) < 2"
    by (simp add: ex_eval)
  show "PlotMap [ex_india_1] \<in> set (fst (run (Inr ex_df_early) ''Worldwide'' [2, 2]))"
    by (simp add: filtered_df_def filter_date_def filter_location_def
          latest_country_data_def sort_values_date_def subset_df_def
          run_def load_data_def sidebar_def unpack_range_def page_def main_page_def
          iloc_last_def st_progress_def progress_arg_def py_min_def latest_comparison_def
          iloc_last_frame_def tab3_def tab1_def tab2_def metrics_def Let_def ex_eval)
qed

text \<open>
  Claim C4, amended. In the global view, every location that is not an aggregate and has
  a row dated on or before the end day gets exactly one record; that record is a row of
  the dataset dated on or before the end day, and no row of that location dated on or
  before the end day has a later date. The start day plays no part.
\<close>

theorem latest_country_data_up_to_end:
  assumes r0: "r0 \<in> set df"
      and nagg: "location r0 \<notin> set non_country_aggregates"
      and upto: "dt_date (date r0) \<le> e"
  shows "\<exists>r. filter (\<lambda>x. location x = location r0) (latest_country_data df e) = [r]
           \<and> r \<in> set df \<and> dt_date (date r) \<le> e
           \<and> (\<forall>r' \<in> set df. location r' = location r0 \<and> dt_date (date r') \<le> e
                 \<longrightarrow> date r' \<le> date r)"
proof -
  let ?sub = "subset_df df e"
  let ?srt = "sort_values_date ?sub"
  let ?lcd = "latest_country_data df e"
  have r0sub: "r0 \<in> set ?sub" using r0 nagg upto by (simp add: subset_df_def)
  then have "location r0 \<in> location ` set ?srt" by (simp add: sort_values_date_def)
  then have "location r0 \<in> location ` set ?lcd"
    by (simp add: latest_country_data_def locations_groupby)
  then obtain r where r: "r \<in> set ?lcd" and loc: "location r = location r0" by auto
  have dist: "distinct (map location ?lcd)"
    by (simp add: latest_country_data_def distinct_locations_groupby)
  have one: "filter (\<lambda>x. location x = location r0) ?lcd = [r]"
    using distinct_key_filter_single [OF dist r] loc by simp
  have rsub: "r \<in> set ?sub" using r set_latest_country_data by blast
  then have rdf: "r \<in> set df" and rupto: "dt_date (date r) \<le> e"
    by (auto simp: subset_df_def)
  have srt: "sorted (map date ?srt)" by (simp add: sort_values_date_def)
  have "date r' \<le> date r"
    if "r' \<in> set df" "location r' = location r0" "dt_date (date r') \<le> e" for r'
  proof -
    have "r' \<in> set ?srt" using that nagg by (simp add: sort_values_date_def subset_df_def)
    moreover have "r \<in> set (groupby_location_tail1 ?srt)"
      using r by (simp add: latest_country_data_def)
    ultimately show ?thesis using groupby_latest [OF srt] that(2) loc by simp
  qed
  then show ?thesis using one rdf rupto by blast
qed

theorem latest_country_data_up_to_end_witness:
  "ex_india_1 \<in> set ex_df \<and> location ex_india_1 \<notin> set non_country_aggregates
   \<and> dt_date (date ex_india_1) \<le> 2
   \<and> latest_country_data ex_df 2 = [ex_india_2]"
proof -
  have a: "ex_india_1 \<in> set ex_df" by (simp add: ex_df_def)
  have b: "location ex_india_1 \<notin> set non_country_aggregates"
    by (simp add: ex_eval)
  have c: "dt_date (date ex_india_1) \<le> 2" by (simp add: ex_eval)
  show ?thesis
    using latest_country_data_up_to_end [OF a b c] a b
    by (simp add: latest_country_data_def sort_values_date_def subset_df_def ex_eval)
qed

section \<open>Halting: empty filter result and missing data file\<close>

text \<open>
  The filter result exists only in a run that gets as far as lines 62 to 68: the file was
  read, the table has rows, and the date widget returned both ends of a range. The other
  runs end before, and show no warning.
\<close>

lemma sidebar_ok:
  "df \<noteq> [] \<Longrightarrow> snd (sidebar df) = None"
  by (cases df) (simp_all add: sidebar_def)

lemma run_no_rows:
  "run (Inr []) sel picked =
     ([SetPageConfig, SidebarHeader ''Filter Options'',
       SidebarSelectbox ''Select a Location'' [''Worldwide'']],
      Raised NaTDateInput)"
  by (simp add: run_def load_data_def sidebar_def location_options_def country_list_def
        unique_def)

lemma run_incomplete_range:
  "df \<noteq> [] \<Longrightarrow> length picked \<noteq> 2 \<Longrightarrow>
     run (Inr df) sel picked = (SetPageConfig # fst (sidebar df), Raised ValueError)"
proof -
  assume df: "df \<noteq> []" and len: "length picked \<noteq> 2"
  have "unpack_range picked = Inl ValueError"
    using len by (auto simp: unpack_range_def split: list.splits)
  moreover obtain side where "sidebar df = (side, None)"
    using sidebar_ok [OF df] by (cases "sidebar df") auto
  ultimately show ?thesis by (simp add: run_def load_data_def)
qed

text \<open>
  Claim C5. Whenever the filter result is empty (in a run that computes it: the data file
  was read, the table has rows and the date widget returned a range), the run shows the
  page head and the warning, and stops there: what it shows is exactly the page
  configuration, the sidebar, the title, the filter line and the warning, so no key
  metric, progress bar, tab or chart is produced.
\<close>

theorem empty_filter_warns_and_stops:
  assumes "df \<noteq> []" and "filtered_df df sel s e = []"
  shows "run (Inr df) sel [s, e] =
           (SetPageConfig # fst (sidebar df)
              @ [StTitle, StMarkdownFilters sel s e,
                 StWarning ''No data available for the selected filters.''],
            Stopped)
         \<and> snd (sidebar df) = None
         \<and> list_all (\<lambda>ev. \<not> from_after_check ev) (fst (run (Inr df) sel [s, e]))"
proof -
  obtain r rs where df: "df = r # rs" using assms(1) by (cases df) auto
  have side: "sidebar df =
      ([SidebarHeader ''Filter Options'',
        SidebarSelectbox ''Select a Location'' (location_options df),
        SidebarDateInput ''Select Date Range''
          (dt_date (fold min (map date rs) (date r)))
          (dt_date (fold max (map date rs) (date r)))], None)"
    by (simp add: sidebar_def df)
  have pg: "page df sel s e =
      ([StTitle, StMarkdownFilters sel s e,
        StWarning ''No data available for the selected filters.''], Stopped)"
    using assms(2) by (simp add: page_def)
  have r: "run (Inr df) sel [s, e] =
           (SetPageConfig # fst (sidebar df)
              @ [StTitle, StMarkdownFilters sel s e,
                 StWarning ''No data available for the selected filters.''],
            Stopped)"
    by (simp add: run_def load_data_def unpack_range_def side pg)
  have "list_all (\<lambda>ev. \<not> from_after_check ev) (fst (run (Inr df) sel [s, e]))"
    unfolding r by (simp add: side)
  then show ?thesis using r side by simp
qed

theorem empty_filter_warns_and_stops_witness:
  "ex_df_early \<noteq> []
   \<and> in_widget_range ex_df_early ''India'' 2 2
   \<and> filtered_df ex_df_early ''India'' 2 2 = []
   \<and> snd (run (Inr ex_df_early) ''India'' [2, 2]) = Stopped
   \<and> last (fst (run (Inr ex_df_early) ''India'' [2, 2]))
        = StWarning ''No data available for the selected filters.''"
proof -
  have n: "ex_df_early \<noteq> []" by (simp add: ex_df_early_def)
  have w: "in_widget_range ex_df_early ''India'' 2 2"
    by (simp add: in_widget_range_def location_options_def country_list_def unique_def ex_eval)
  have e: "filtered_df ex_df_early ''India'' 2 2 = []"
    by (simp add: filtered_df_def filter_date_def filter_location_def ex_eval)
  show ?thesis using empty_filter_warns_and_stops [OF n e] n w e by simp
qed

text \<open>
  Claim C6. When the data file is absent, the run shows the error message and stops,
  having shown nothing else but the page configuration. No other failure of reading the
  file is handled: it ends the run as an uncaught exception, with no message of the
  script's own.
\<close>

theorem missing_file_error_and_stop:
  "run (Inl FileNotFoundError) sel picked =
     ([SetPageConfig,
       StError ''Data file not found. Please run the data preparation notebook first.''],
      Stopped)
   \<and> run (Inl (OtherReadError msg)) sel picked = ([SetPageConfig], Raised (ReadFailure msg))"
  by (simp add: run_def load_data_def)

theorem missing_file_error_and_stop_witness:
  "snd (run (Inl FileNotFoundError) ''Worldwide'' [1, 2]) = Stopped
   \<and> snd (run (Inl (OtherReadError ''ArrowInvalid'')) ''Worldwide'' [1, 2])
        = Raised (ReadFailure ''ArrowInvalid'')"
  using missing_file_error_and_stop [of "''Worldwide''" "[1, 2]" "''ArrowInvalid''"] by simp

section \<open>Reshaping to long form\<close>

lemma length_melt: "length (melt cols xs) = length cols * length xs"
  by (induction cols) (auto simp: melt_def)

text \<open>
  Claim C7. Melting the two count columns of any table gives twice as many records as
  the table has rows; for a filtered table that is not empty, the comparison table built
  from its last row is produced (nothing is raised) and has exactly two records.
\<close>

theorem melt_doubles_row_count:
  "length (melt comparison_cols xs) = 2 * length xs
   \<and> (fdf \<noteq> [] \<longrightarrow>
        (\<exists>lc. latest_comparison fdf = Inr lc \<and> length lc = 2))"
  by (simp add: length_melt latest_comparison_def iloc_last_frame_def comparison_cols_def)

theorem melt_doubles_row_count_witness:
  "length (melt comparison_cols ex_df) = 6
   \<and> ex_df \<noteq> []
   \<and> latest_comparison ex_df =
        Inr [\<lparr>id_location = ''World'', Metric = ''people_vaccinated'', Count = 700\<rparr>,
             \<lparr>id_location = ''World'', Metric = ''people_fully_vaccinated'', Count = 300\<rparr>]"
  using melt_doubles_row_count [of ex_df ex_df]
  by (simp add: latest_comparison_def iloc_last_frame_def melt_def comparison_cols_def ex_defs)

section \<open>Aggregates are kept out of the country list and the global view\<close>

lemma set_unique_from: "set (unique_from seen xs) = set xs - set seen"
  by (induction xs arbitrary: seen) auto

lemma set_unique: "set (unique xs) = set xs"
  by (simp add: unique_def set_unique_from)

lemma set_country_list:
  "set (country_list df) = location ` set df - set non_country_aggregates"
  by (auto simp: country_list_def set_unique)

lemma locations_subset_df:
  "location ` set (subset_df df e) \<subseteq> location ` set df - set non_country_aggregates"
  by (auto simp: subset_df_def)

lemma locations_latest_country_data:
  "location ` set (latest_country_data df e)
     \<subseteq> location ` set df - set non_country_aggregates"
proof -
  have "location ` set (latest_country_data df e) \<subseteq> location ` set (subset_df df e)"
    using set_latest_country_data [of df e] by (rule image_mono)
  then show ?thesis using locations_subset_df [of df e] by (rule subset_trans)
qed

lemma locations_top_10:
  "location ` set (top_10 lcd) \<subseteq> location ` set lcd"
proof (rule image_mono)
  have "set (take 10 (sort_key (\<lambda>r. - total_vaccinations r) lcd))
          \<subseteq> set (sort_key (\<lambda>r. - total_vaccinations r) lcd)"
    by (rule set_take_subset)
  then show "set (top_10 lcd) \<subseteq> set lcd" by (simp add: top_10_def nlargest_def)
qed

lemma aggregate_names:
  "set non_country_aggregates =
     {''World'', ''Europe'', ''Asia'', ''Africa'', ''North America'', ''South America'',
      ''European Union'', ''High income'', ''Low income'', ''Lower middle income'',
      ''Upper middle income''}"
  unfolding non_country_aggregates_def by (simp only: list.set)

text \<open>
  Claim C8. The sidebar's country list holds exactly the dataset's locations that are not
  among the eleven aggregate names; every location of the global view's tables (the
  subset, the latest row per country and the top-10 ranking) is a location of the dataset
  that is not one of the eleven aggregate names.
\<close>

theorem aggregates_excluded:
  "set (country_list df) = location ` set df - set non_country_aggregates
   \<and> location ` set (subset_df df e) \<subseteq> location ` set df - set non_country_aggregates
   \<and> location ` set (latest_country_data df e)
        \<subseteq> location ` set df - set non_country_aggregates
   \<and> location ` set (top_10 (latest_country_data df e))
        \<subseteq> location ` set df - set non_country_aggregates
   \<and> set non_country_aggregates =
        {''World'', ''Europe'', ''Asia'', ''Africa'', ''North America'', ''South America'',
         ''European Union'', ''High income'', ''Low income'', ''Lower middle income'',
         ''Upper middle income''}"
proof (intro conjI)
  show "set (country_list df) = location ` set df - set non_country_aggregates"
    by (rule set_country_list)
  show "location ` set (subset_df df e) \<subseteq> location ` set df - set non_country_aggregates"
    by (rule locations_subset_df)
  show "location ` set (latest_country_data df e)
        \<subseteq> location ` set df - set non_country_aggregates"
    by (rule locations_latest_country_data)
  show "location ` set (top_10 (latest_country_data df e))
        \<subseteq> location ` set df - set non_country_aggregates"
    using locations_top_10 [of "latest_country_data df e"] locations_latest_country_data [of df e]
    by (rule subset_trans)
  show "set non_country_aggregates =
        {''World'', ''Europe'', ''Asia'', ''Africa'', ''North America'', ''South America'',
         ''European Union'', ''High income'', ''Low income'', ''Lower middle income'',
         ''Upper middle income''}"
    by (rule aggregate_names)
qed

theorem aggregates_excluded_witness:
  "country_list ex_df = [''India'']
   \<and> map location (latest_country_data ex_df 2) = [''India'']
   \<and> ''World'' \<in> location ` set ex_df"
  using aggregates_excluded [of ex_df 2]
  by (simp add: country_list_def unique_def latest_country_data_def sort_values_date_def
        subset_df_def ex_eval)

section \<open>The progress bar's argument\<close>

text \<open>
  Claim C9. The argument passed to the progress bar is the smaller of a hundredth of the
  coverage and one, so it never exceeds one; for a coverage above 100 it is one, and for
  a coverage that is not negative the progress bar accepts it.
\<close>

theorem progress_arg_at_most_one:
  "progress_arg coverage = min (coverage / 100) 1
   \<and> progress_arg coverage \<le> 1
   \<and> (100 < coverage \<longrightarrow> progress_arg coverage = 1)
   \<and> (0 \<le> coverage \<longrightarrow>
        st_progress (progress_arg coverage) = Inr (StProgress (min (coverage / 100) 1)))"
  by (auto simp: progress_arg_def py_min_def st_progress_def min_def)

theorem progress_arg_at_most_one_witness:
  "progress_arg 150 = 1 \<and> progress_arg 40 = 2 / 5
   \<and> st_progress (progress_arg 150) = Inr (StProgress 1)"
  using progress_arg_at_most_one [of 150] progress_arg_at_most_one [of 40]
  by (simp add: progress_arg_def py_min_def)

section \<open>The loaded dataset is left as it was\<close>

text \<open>
  Claim C10. The location and date filtering of lines 62 to 68 ends with the filtered
  table in a new table object and leaves the loaded dataset, and every other table there
  was before, unchanged.
\<close>

theorem filtering_leaves_dataset_unchanged:
  assumes "frame_at h df = Some f"
  shows "\<exists>a h'. filter_steps df sel s e h = Some (a, h')
           \<and> a \<noteq> df
           \<and> frame_at h' df = Some f
           \<and> frame_at h' a = Some (filtered_df f sel s e)
           \<and> (\<forall>b < length h. frame_at h' b = frame_at h b)"
proof -
  from assms have lt: "df < length h" and f: "h ! df = f"
    by (auto simp: frame_at_def split: if_splits)
  let ?f1 = "filter (\<lambda>r. location r = location_to_filter sel) f"
  let ?f3 = "filter (\<lambda>r. dt_date (date r) \<ge> s \<and> dt_date (date r) \<le> e) ?f1"
  let ?h' = "h @ [?f1] @ [?f1] @ [?f3]"
  have steps: "filter_steps df sel s e h = Some (length h + 2, ?h')"
    using assms
    by (simp add: filter_steps_def getitem_mask_def frame_copy_def alloc_def frame_at_def nth_append)
  have "frame_at ?h' df = Some f"
    using lt f by (simp add: frame_at_def nth_append)
  moreover have "frame_at ?h' (length h + 2) = Some (filtered_df f sel s e)"
    by (simp add: frame_at_def nth_append filtered_df_def filter_date_def filter_location_def)
  moreover have "\<forall>b < length h. frame_at ?h' b = frame_at h b"
    by (simp add: frame_at_def nth_append)
  moreover have "length h + 2 \<noteq> df" using lt by simp
  ultimately show ?thesis using steps by blast
qed

theorem filtering_leaves_dataset_unchanged_witness:
  "frame_at [ex_df] 0 = Some ex_df
   \<and> filter_steps 0 ''India'' 1 2 [ex_df] =
        Some (3, [ex_df, [ex_india_1, ex_india_2], [ex_india_1, ex_india_2],
                  [ex_india_1, ex_india_2]])"
proof -
  have a: "frame_at [ex_df] 0 = Some ex_df" by (simp add: frame_at_def)
  have b: "filter_steps 0 ''India'' 1 2 [ex_df] =
        Some (3, [ex_df, [ex_india_1, ex_india_2], [ex_india_1, ex_india_2],
                  [ex_india_1, ex_india_2]])"
    by (simp add: filter_steps_def getitem_mask_def frame_copy_def alloc_def frame_at_def ex_eval)
  show ?thesis
    using filtering_leaves_dataset_unchanged [OF a, of "''India''" 1 2] a b by simp
qed

end
